theory Spec2Isabelle
  imports Complex_Main "HOL-Library.Char_ord" "HOL-Library.List_Lexorder"
    "HOL-Library.Product_Lexorder" "HOL-Library.Multiset" "HOL-Library.AList"
begin

section \<open>Values, errors and arithmetic\<close>

text \<open>
  The exceptions the modelled functions can raise. A function that can raise returns a
  value of \<open>error + 'a\<close>, with \<open>Inl\<close> for the exception.
\<close>

datatype error = ValueError | TypeError | IndexError | ZeroDivisionError | OverflowError

text \<open>
  A number held in an attribute or a local variable: the not-a-number value that the
  spreadsheet reader yields for an empty cell, or a number. Numbers are exact rationals:
  the rounding of binary floating point is not part of this model, nor are infinities.
  An attribute that holds Python's \<open>None\<close> is \<open>None\<close> of type \<open>pyfloat option\<close>.
\<close>

datatype pyfloat = NaN | Num rat

fun py_add :: "pyfloat \<Rightarrow> pyfloat \<Rightarrow> pyfloat" where
  "py_add (Num a) (Num b) = Num (a + b)"
| "py_add _ _ = NaN"

fun py_sub :: "pyfloat \<Rightarrow> pyfloat \<Rightarrow> pyfloat" where
  "py_sub (Num a) (Num b) = Num (a - b)"
| "py_sub _ _ = NaN"

fun py_mul :: "pyfloat \<Rightarrow> pyfloat \<Rightarrow> pyfloat" where
  "py_mul (Num a) (Num b) = Num (a * b)"
| "py_mul _ _ = NaN"

text \<open>True division of Python numbers: a zero divisor raises, whatever the dividend.\<close>

fun py_truediv :: "pyfloat \<Rightarrow> pyfloat \<Rightarrow> error + pyfloat" where
  "py_truediv a (Num b) =
     (if b = 0 then Inl ZeroDivisionError
      else (case a of NaN \<Rightarrow> Inr NaN | Num x \<Rightarrow> Inr (Num (x / b))))"
| "py_truediv a NaN = Inr NaN"

definition TAX_ON_PROFIT_PERCENTAGE :: pyfloat where
  "TAX_ON_PROFIT_PERCENTAGE = Num (15 / 100)"

section \<open>Ledger entries\<close>

datatype OpType = BUY | SELL

datatype CurrencyConversionType = EUR_TO_BRL | BRL_TO_EUR

text \<open>
  The attributes of a \<open>StockTransactionEntry\<close> object. The constructor sets the first
  twelve. \<open>total_cost_brl\<close> is not a constructor attribute: the processor creates it on
  purchase entries, and \<open>None\<close> in that field means that the object has no such
  attribute. \<open>op_type\<close> and \<open>cur_conv_type\<close> are \<open>None\<close> where the object holds
  Python's \<open>None\<close> instead of an enum member.
\<close>

record StockTransactionEntry =
  date :: string
  op_type :: "OpType option"
  qty :: "pyfloat option"
  total_qty :: "pyfloat option"
  cur_conv_rate :: "pyfloat option"
  cur_conv_type :: "CurrencyConversionType option"
  avg_price :: "pyfloat option"
  price_eur :: "pyfloat option"
  price_brl :: "pyfloat option"
  net_proceeds :: "pyfloat option"
  profit :: "pyfloat option"
  tax :: "pyfloat option"
  total_cost_brl :: "pyfloat option"


text \<open>\<open>str.split('-')\<close>: the pieces between the dashes; the empty text has one piece.\<close>

fun split_dash :: "string \<Rightarrow> string list" where
  "split_dash [] = [[]]"
| "split_dash (c # cs) =
     (if c = CHR ''-'' then [] # split_dash cs
      else (case split_dash cs of [] \<Rightarrow> [[c]] | p # ps \<Rightarrow> (c # p) # ps))"

definition get_date_as_tuple :: "StockTransactionEntry \<Rightarrow> string list" where
  "get_date_as_tuple e = split_dash (date e)"

section \<open>Calendar dates as text\<close>

definition is_digit :: "char \<Rightarrow> bool" where
  "is_digit c = (CHR ''0'' \<le> c \<and> c \<le> CHR ''9'')"

definition digit_value :: "char \<Rightarrow> nat" where
  "digit_value c = of_char c - 48"

text \<open>
  \<open>int(s)\<close> on a text of decimal digits (what the pieces of an ISO date are). Python
  also reads a sign, surrounding blanks and underscores; those texts are outside this
  model and are refused here.
\<close>

definition int_py :: "string \<Rightarrow> error + nat" where
  "int_py s =
     (if s \<noteq> [] \<and> list_all is_digit s
      then Inr (foldl (\<lambda>a c. 10 * a + digit_value c) 0 s)
      else Inl ValueError)"

fun digits10 :: "nat \<Rightarrow> string" where
  "digits10 n =
     (if n < 10 then [char_of (48 + n)]
      else digits10 (n div 10) @ [char_of (48 + n mod 10)])"

declare digits10.simps [simp del]

text \<open>The format \<open>{n:0wd}\<close>: decimal, padded with zeros on the left to width \<open>w\<close>.\<close>

definition zero_padded :: "nat \<Rightarrow> nat \<Rightarrow> string" where
  "zero_padded w n = replicate (w - length (digits10 n)) (CHR ''0'') @ digits10 n"

definition is_leap :: "nat \<Rightarrow> bool" where
  "is_leap y = (y mod 4 = 0 \<and> (y mod 100 \<noteq> 0 \<or> y mod 400 = 0))"

definition days_in_month :: "nat \<Rightarrow> nat \<Rightarrow> nat" where
  "days_in_month y m =
     (if m = 2 then (if is_leap y then 29 else 28)
      else if m = 4 \<or> m = 6 \<or> m = 9 \<or> m = 11 then 30 else 31)"

text \<open>\<open>datetime(y, m, d)\<close>: a date of the calendar between the years 1 and 9999.\<close>

definition datetime :: "nat \<Rightarrow> nat \<Rightarrow> nat \<Rightarrow> error + nat \<times> nat \<times> nat" where
  "datetime y m d =
     (if 1 \<le> y \<and> y \<le> 9999 \<and> 1 \<le> m \<and> m \<le> 12 \<and> 1 \<le> d \<and> d \<le> days_in_month y m
      then Inr (y, m, d) else Inl ValueError)"

text \<open>\<open>dt - timedelta(days=1)\<close>: the day before; there is none before 0001-01-01.\<close>

fun minus_one_day :: "nat \<times> nat \<times> nat \<Rightarrow> error + nat \<times> nat \<times> nat" where
  "minus_one_day (y, m, d) =
     (if 1 < d then Inr (y, m, d - 1)
      else if 1 < m then Inr (y, m - 1, days_in_month y (m - 1))
      else if 1 < y then Inr (y - 1, 12, 31)
      else Inl OverflowError)"

fun yesterday_str :: "string \<times> string \<times> string \<Rightarrow> error + string \<times> string \<times> string" where
  "yesterday_str (year_s, month_s, day_s) =
     (case int_py year_s of Inl e \<Rightarrow> Inl e | Inr y \<Rightarrow>
      (case int_py month_s of Inl e \<Rightarrow> Inl e | Inr m \<Rightarrow>
       (case int_py day_s of Inl e \<Rightarrow> Inl e | Inr d \<Rightarrow>
        (case datetime y m d of Inl e \<Rightarrow> Inl e | Inr dt \<Rightarrow>
         (case minus_one_day dt of Inl e \<Rightarrow> Inl e | Inr (py, pm, pd) \<Rightarrow>
            Inr (zero_padded 4 py, zero_padded 2 pm, zero_padded 2 pd))))))"

text \<open>Reading back a number that was formatted with zero padding gives the number.\<close>

lemma digit_value_char_of: "(n::nat) < 10 \<Longrightarrow> digit_value (char_of (48 + n)) = n"
  unfolding digit_value_def by (simp add: of_char_of)

lemma is_digit_char_of: "(n::nat) < 10 \<Longrightarrow> is_digit (char_of (48 + n))"
  unfolding is_digit_def by (simp add: less_eq_char_def of_char_of)

lemma is_digit_zero: "is_digit (CHR ''0'')"
  by (simp add: is_digit_def less_eq_char_def)

lemma digits10_nonempty: "digits10 n \<noteq> []"
  by (subst digits10.simps) simp

lemma digits10_all_digit: "list_all is_digit (digits10 n)"
proof (induction n rule: digits10.induct)
  case (1 n)
  show ?case
  proof (cases "n < 10")
    case True
    then show ?thesis by (subst digits10.simps) (simp add: is_digit_char_of)
  next
    case False
    then show ?thesis using 1 by (subst digits10.simps) (simp add: is_digit_char_of)
  qed
qed

lemma digits10_value: "foldl (\<lambda>a c. 10 * a + digit_value c) 0 (digits10 n) = n"
proof (induction n rule: digits10.induct)
  case (1 n)
  show ?case
  proof (cases "n < 10")
    case True
    then show ?thesis by (subst digits10.simps) (simp add: digit_value_char_of)
  next
    case False
    then show ?thesis using 1 by (subst digits10.simps) (simp add: digit_value_char_of)
  qed
qed

lemma foldl_zeros: "foldl (\<lambda>a c. 10 * a + digit_value c) 0 (replicate k (CHR ''0'')) = 0"
  by (induction k) (simp_all add: digit_value_def)

lemma int_py_zero_padded: "int_py (zero_padded w n) = Inr n"
  unfolding int_py_def zero_padded_def
  using digits10_all_digit [of n]
  by (auto simp add: foldl_zeros digits10_value digits10_nonempty is_digit_zero list_all_iff)

section \<open>The exchange rate resolver\<close>

text \<open>
  One quotation of the remote service's answer, and the answer's \<open>value\<close> list: empty
  on a day without a published rate.
\<close>

record quotation =
  cotacaoCompra :: rat
  cotacaoVenda :: rat

type_synonym payload = "quotation list"

text \<open>
  The remote service is a parameter: the answer it gives for the date text of a request,
  the same each time the date is asked. A request that fails on the network is not part
  of this model. The state of the resolver is the module's cache, a dictionary from date texts to
  answers, together with the list of the requests sent so far, oldest first. The
  dictionary is the list of its items in insertion order: \<open>map_of\<close> looks a key up,
  \<open>AList.update\<close> stores under a key.
\<close>

type_synonym bcb_service = "string \<Rightarrow> payload"

record resolver =
  BCB_CACHE_FOR_EUR_REQUESTS :: "(string \<times> payload) list"
  requests_sent :: "string list"

text \<open>The date text of a request and of a cache key: month, day, year.\<close>

definition date_key :: "string \<Rightarrow> string \<Rightarrow> string \<Rightarrow> string" where
  "date_key year month day = month @ ''-'' @ day @ ''-'' @ year"

text \<open>
  A number that falls with every step to the day before, for the termination of the loop.
\<close>

definition date_rank :: "string \<times> string \<times> string \<Rightarrow> nat" where
  "date_rank ymd =
     (case ymd of (year, month, day) \<Rightarrow>
       (case (int_py year, int_py month, int_py day) of
          (Inr y, Inr m, Inr d) \<Rightarrow> (y * 12 + m) * 32 + d
        | _ \<Rightarrow> 0))"

lemma days_in_month_le: "days_in_month y m \<le> 31"
  by (simp add: days_in_month_def)

lemma minus_one_day_rank:
  assumes "datetime y m d = Inr dt" and "minus_one_day dt = Inr (py, pm, pd)"
  shows "(py * 12 + pm) * 32 + pd < (y * 12 + m) * 32 + d"
proof -
  from assms(1) have dt: "dt = (y, m, d)" and v: "1 \<le> y" "1 \<le> m" "m \<le> 12" "1 \<le> d" "d \<le> 31"
    using days_in_month_le [of y m] by (auto simp: datetime_def split: if_splits)
  show ?thesis
  proof (cases "1 < d")
    case True
    with assms(2) dt show ?thesis by auto
  next
    case d1: False
    show ?thesis
    proof (cases "1 < m")
      case True
      with d1 assms(2) dt have "py = y" "pm = m - 1" "pd = days_in_month y (m - 1)" by auto
      with True v days_in_month_le [of y "m - 1"] show ?thesis by auto
    next
      case False
      with d1 assms(2) dt have "1 < y" "py = y - 1" "pm = 12" "pd = 31"
        by (auto split: if_splits)
      with v d1 False show ?thesis by auto
    qed
  qed
qed

lemma yesterday_str_rank:
  assumes "yesterday_str (year, month, day) = Inr (year', month', day')"
  shows "date_rank (year', month', day') < date_rank (year, month, day)"
proof -
  from assms obtain y m d dt py pm pd where
    p: "int_py year = Inr y" "int_py month = Inr m" "int_py day = Inr d"
    and dt: "datetime y m d = Inr dt" and prev: "minus_one_day dt = Inr (py, pm, pd)"
    and out: "year' = zero_padded 4 py" "month' = zero_padded 2 pm" "day' = zero_padded 2 pd"
    by (auto split: sum.splits)
  from minus_one_day_rank [OF dt prev] show ?thesis
    by (simp add: date_rank_def p out int_py_zero_padded)
qed

text \<open>
  The loop of \<open>_get_eur_quotation_data_for_date\<close>, entered on a cache miss. Each turn
  sends a request for \<open>date\<close>; on an empty answer it steps \<open>year, month, day\<close> and
  \<open>date\<close> to the day before; and, in both cases, it then stores the answer of this turn
  under the value \<open>date\<close> has at that point. It returns the first answer that is not
  empty. \<open>yesterday_str\<close> can raise, which ends the loop before the store.
\<close>

function quotation_loop ::
  "bcb_service \<Rightarrow> resolver \<Rightarrow> string \<times> string \<times> string \<Rightarrow> string \<Rightarrow> (error + payload) \<times> resolver"
where
  "quotation_loop service st ymd date_str =
     (let result = service date_str;
          st1 = st\<lparr>requests_sent := requests_sent st @ [date_str]\<rparr>
      in if length result = 0 then
           (case yesterday_str ymd of
              Inl e \<Rightarrow> (Inl e, st1)
            | Inr (year', month', day') \<Rightarrow>
                (let new_date = date_key year' month' day';
                     st2 = st1\<lparr>BCB_CACHE_FOR_EUR_REQUESTS :=
                             AList.update new_date result (BCB_CACHE_FOR_EUR_REQUESTS st1)\<rparr>
                 in quotation_loop service st2 (year', month', day') new_date))
         else
           (Inr result,
            st1\<lparr>BCB_CACHE_FOR_EUR_REQUESTS :=
                  AList.update date_str result (BCB_CACHE_FOR_EUR_REQUESTS st1)\<rparr>))"
  by pat_completeness auto
termination
proof (relation "measure (\<lambda>(service, st, ymd, date_str). date_rank ymd)")
  show "wf (measure (\<lambda>(service, st, ymd, date_str). date_rank ymd))" by simp
next
  fix service :: bcb_service and st :: resolver and ymd :: "string \<times> string \<times> string"
    and date_str :: string and result st1 x2 year' yb month' day' new_date st2
  assume "yesterday_str ymd = Inr x2" and "(year', yb) = x2" and "(month', day') = yb"
  then have "yesterday_str (fst ymd, fst (snd ymd), snd (snd ymd)) = Inr (year', month', day')"
    by simp
  from yesterday_str_rank [OF this]
  show "((service, st2, (year', month', day'), new_date), (service, st, ymd, date_str))
        \<in> measure (\<lambda>(service, st, ymd, date_str). date_rank ymd)"
    by simp
qed

declare quotation_loop.simps [simp del]

definition get_eur_quotation_data_for_date ::
  "bcb_service \<Rightarrow> resolver \<Rightarrow> string \<Rightarrow> string \<Rightarrow> string \<Rightarrow> (error + payload) \<times> resolver"
where
  "get_eur_quotation_data_for_date service st year month day =
     (let date_str = date_key year month day in
      case map_of (BCB_CACHE_FOR_EUR_REQUESTS st) date_str of
        Some result \<Rightarrow> (Inr result, st)
      | None \<Rightarrow> quotation_loop service st (year, month, day) date_str)"

text \<open>
  The two accessors read the first quotation of the answer: its buying rate or its selling
  rate. Indexing an empty \<open>value\<close> list raises \<open>IndexError\<close>.
\<close>

definition get_price_for_buying_eur_at_date ::
  "bcb_service \<Rightarrow> resolver \<Rightarrow> string \<Rightarrow> string \<Rightarrow> string \<Rightarrow> (error + pyfloat) \<times> resolver"
where
  "get_price_for_buying_eur_at_date service st year month day =
     (case get_eur_quotation_data_for_date service st year month day of
        (Inl e, st') \<Rightarrow> (Inl e, st')
      | (Inr [], st') \<Rightarrow> (Inl IndexError, st')
      | (Inr (q # _), st') \<Rightarrow> (Inr (Num (cotacaoCompra q)), st'))"

definition get_price_for_selling_eur_at_date ::
  "bcb_service \<Rightarrow> resolver \<Rightarrow> string \<Rightarrow> string \<Rightarrow> string \<Rightarrow> (error + pyfloat) \<times> resolver"
where
  "get_price_for_selling_eur_at_date service st year month day =
     (case get_eur_quotation_data_for_date service st year month day of
        (Inl e, st') \<Rightarrow> (Inl e, st')
      | (Inr [], st') \<Rightarrow> (Inl IndexError, st')
      | (Inr (q # _), st') \<Rightarrow> (Inr (Num (cotacaoVenda q)), st'))"

section \<open>The transaction processor\<close>

text \<open>
  The call \<open>f(*transaction.get_date_as_tuple())\<close> of an accessor \<open>f\<close>: it needs exactly
  three pieces, or the call itself raises \<open>TypeError\<close>.
\<close>

definition price_at_date ::
  "(string \<Rightarrow> string \<Rightarrow> string \<Rightarrow> (error + pyfloat) \<times> resolver)
   \<Rightarrow> resolver \<Rightarrow> StockTransactionEntry \<Rightarrow> (error + pyfloat) \<times> resolver"
where
  "price_at_date f st transaction =
     (case get_date_as_tuple transaction of
        [year, month, day] \<Rightarrow> f year month day
      | _ \<Rightarrow> (Inl TypeError, st))"

text \<open>
  The running aggregates of the loop: \<open>total_qty\<close>, \<open>total_cost_brl\<close> and
  \<open>current_avg_price\<close>, in this order.
\<close>

type_synonym aggregates = "pyfloat \<times> pyfloat \<times> pyfloat"

text \<open>
  One turn of the loop of \<open>process_transactions\<close>. The transaction object is changed in
  place, so each branch returns the object as it is when the turn ends, also when the turn
  raises: the new aggregates on success, the exception otherwise. An attribute that holds
  \<open>None\<close> raises \<open>TypeError\<close> where it is used in arithmetic.
\<close>

definition process_buy ::
  "bcb_service \<Rightarrow> resolver \<Rightarrow> aggregates \<Rightarrow> StockTransactionEntry
   \<Rightarrow> (error + aggregates) \<times> StockTransactionEntry \<times> resolver"
where
  "process_buy service st agg transaction =
     (case agg of (total_qty0, total_cost_brl0, current_avg_price0) \<Rightarrow>
      (case price_at_date (get_price_for_buying_eur_at_date service st) st transaction of
         (Inl e, st') \<Rightarrow> (Inl e, transaction, st')
       | (Inr buying_price_eur, st') \<Rightarrow>
      (case qty transaction of None \<Rightarrow> (Inl TypeError, transaction, st') | Some q \<Rightarrow>
      (case price_eur transaction of None \<Rightarrow> (Inl TypeError, transaction, st') | Some pe \<Rightarrow>
       (let total_qty1 = py_add total_qty0 q;
            price_brl1 = py_mul (py_mul pe q) buying_price_eur;
            total_cost_brl1 = py_add total_cost_brl0 price_brl1
        in case py_truediv total_cost_brl1 total_qty1 of
             Inl e \<Rightarrow> (Inl e, transaction, st')
           | Inr current_avg_price1 \<Rightarrow>
               (Inr (total_qty1, total_cost_brl1, current_avg_price1),
                transaction\<lparr>cur_conv_rate := Some buying_price_eur,
                            total_qty := Some total_qty1,
                            price_brl := Some price_brl1,
                            total_cost_brl := Some total_cost_brl1,
                            avg_price := Some current_avg_price1\<rparr>,
                st'))))))"

definition process_sell ::
  "bcb_service \<Rightarrow> resolver \<Rightarrow> aggregates \<Rightarrow> StockTransactionEntry
   \<Rightarrow> (error + aggregates) \<times> StockTransactionEntry \<times> resolver"
where
  "process_sell service st agg transaction =
     (case agg of (total_qty0, total_cost_brl0, current_avg_price0) \<Rightarrow>
      (case price_at_date (get_price_for_selling_eur_at_date service st) st transaction of
         (Inl e, st') \<Rightarrow> (Inl e, transaction, st')
       | (Inr selling_price_eur, st') \<Rightarrow>
      (case qty transaction of None \<Rightarrow> (Inl TypeError, transaction, st') | Some q \<Rightarrow>
      (case net_proceeds transaction of None \<Rightarrow> (Inl TypeError, transaction, st') | Some np \<Rightarrow>
       (let total_qty1 = py_sub total_qty0 q;
            total_cost_brl1 = py_sub total_cost_brl0 (py_mul q current_avg_price0);
            profit1 = py_sub (py_mul selling_price_eur np) (py_mul q current_avg_price0);
            transaction1 = transaction\<lparr>cur_conv_rate := Some selling_price_eur,
                                        total_qty := Some total_qty1,
                                        profit := Some profit1,
                                        avg_price := Some current_avg_price0\<rparr>
        in case price_eur transaction of
             None \<Rightarrow> (Inl TypeError, transaction1, st')
           | Some pe \<Rightarrow>
               (Inr (total_qty1, total_cost_brl1, current_avg_price0),
                transaction1\<lparr>price_brl := Some (py_mul pe selling_price_eur),
                             tax := Some (py_mul profit1 TAX_ON_PROFIT_PERCENTAGE)\<rparr>,
                st'))))))"

definition process_transaction ::
  "bcb_service \<Rightarrow> resolver \<Rightarrow> aggregates \<Rightarrow> StockTransactionEntry
   \<Rightarrow> (error + aggregates) \<times> StockTransactionEntry \<times> resolver"
where
  "process_transaction service st agg transaction =
     (if op_type transaction = Some BUY then process_buy service st agg transaction
      else if op_type transaction = Some SELL then process_sell service st agg transaction
      else (Inl ValueError, transaction, st))"

text \<open>
  The loop over the registry. The result is the exception that ended the pass, if any,
  the registry's objects as the pass leaves them, and the resolver's state. When a turn
  raises, the objects after it have not been touched.
\<close>

fun process_loop ::
  "bcb_service \<Rightarrow> resolver \<Rightarrow> aggregates \<Rightarrow> StockTransactionEntry list
   \<Rightarrow> error option \<times> StockTransactionEntry list \<times> resolver"
where
  "process_loop service st agg [] = (None, [], st)"
| "process_loop service st agg (transaction # rest) =
     (case process_transaction service st agg transaction of
        (Inl e, transaction', st') \<Rightarrow> (Some e, transaction' # rest, st')
      | (Inr agg', transaction', st') \<Rightarrow>
          (case process_loop service st' agg' rest of
             (r, rest', st'') \<Rightarrow> (r, transaction' # rest', st'')))"

text \<open>
  \<open>process_transactions\<close>: the aggregates start at zero. With no exception (\<open>None\<close>)
  the function returns the registry, which is the list of the result.
\<close>

definition process_transactions ::
  "bcb_service \<Rightarrow> resolver \<Rightarrow> StockTransactionEntry list
   \<Rightarrow> error option \<times> StockTransactionEntry list \<times> resolver"
where
  "process_transactions service st registry_of_transactions =
     process_loop service st (Num 0, Num 0, Num 0) registry_of_transactions"

section \<open>The ledger assembler\<close>

text \<open>
  \<open>merge_transactional_data\<close>: one entry per purchase record \<open>(date, price_eur, qty)\<close>,
  then one per sale record \<open>(date, execution_price, qty, net_proceeds)\<close>, and, when the
  parameter \<open>sort\<close> (here \<open>do_sort\<close>) is set, a sort by \<open>sort_by_date\<close>. Python's \<open>list.sort\<close> is stable, as \<open>sort_key\<close> is. The key compares
  date texts character by character, then the ranks.
\<close>

definition buy_entry :: "string \<times> pyfloat option \<times> pyfloat option \<Rightarrow> StockTransactionEntry" where
  "buy_entry r =
     (case r of (d, p, q) \<Rightarrow>
       \<lparr>date = d, op_type = Some BUY, qty = q, total_qty = None, cur_conv_rate = None,
        cur_conv_type = Some EUR_TO_BRL, avg_price = None, price_eur = p, price_brl = None,
        net_proceeds = None, profit = None, tax = None, total_cost_brl = None\<rparr>)"

definition sell_entry ::
  "string \<times> pyfloat option \<times> pyfloat option \<times> pyfloat option \<Rightarrow> StockTransactionEntry" where
  "sell_entry r =
     (case r of (d, execution_price, q, np) \<Rightarrow>
       \<lparr>date = d, op_type = Some SELL, qty = q, total_qty = None, cur_conv_rate = None,
        cur_conv_type = Some BRL_TO_EUR, avg_price = None, price_eur = execution_price,
        price_brl = None, net_proceeds = np, profit = None, tax = None,
        total_cost_brl = None\<rparr>)"


section \<open>Persistence\<close>

text \<open>
  A cell of the spreadsheet, as the reader hands it over: empty, a number or a text.
\<close>

datatype cell = Empty | Number rat | Text string

text \<open>
  A row of the persisted table. The date column holds a text that the reader does not take
  for a missing value (an ISO date is such a text), a numeric column holds a number or is
  empty (\<open>None\<close>), and a tag column holds any cell. \<open>col_total_cost_brl\<close> is the column
  that the attribute created by the processor adds to the table.
\<close>

record sheet_row =
  col_date :: string
  col_op_type :: cell
  col_qty :: "rat option"
  col_total_qty :: "rat option"
  col_cur_conv_rate :: "rat option"
  col_cur_conv_type :: cell
  col_avg_price :: "rat option"
  col_price_eur :: "rat option"
  col_price_brl :: "rat option"
  col_net_proceeds :: "rat option"
  col_profit :: "rat option"
  col_tax :: "rat option"
  col_total_cost_brl :: "rat option"

text \<open>
  Writing: the table has one row per object, with the object's attributes for columns.
  As the data frame library writes them, \<open>None\<close>, not-a-number and an attribute that an
  object lacks all give an empty cell, and an enum member is written as the text \<open>str\<close>
  gives, the class name, a dot and the member's name.
\<close>

fun number_cell :: "pyfloat option \<Rightarrow> rat option" where
  "number_cell None = None"
| "number_cell (Some NaN) = None"
| "number_cell (Some (Num x)) = Some x"

definition OpType_members :: "(string \<times> OpType) list" where
  "OpType_members = [(''BUY'', BUY), (''SELL'', SELL)]"

definition CurrencyConversionType_members :: "(string \<times> CurrencyConversionType) list" where
  "CurrencyConversionType_members = [(''EUR_TO_BRL'', EUR_TO_BRL), (''BRL_TO_EUR'', BRL_TO_EUR)]"

fun member_name :: "(string \<times> 'a) list \<Rightarrow> 'a \<Rightarrow> string" where
  "member_name [] x = []"
| "member_name ((n, y) # ms) x = (if y = x then n else member_name ms x)"

definition enum_cell :: "string \<Rightarrow> (string \<times> 'a) list \<Rightarrow> 'a option \<Rightarrow> cell" where
  "enum_cell enum_name members v =
     (case v of None \<Rightarrow> Empty | Some x \<Rightarrow> Text (enum_name @ ''.'' @ member_name members x))"

definition save_row :: "StockTransactionEntry \<Rightarrow> sheet_row" where
  "save_row entry =
     \<lparr>col_date = date entry,
      col_op_type = enum_cell ''OpType'' OpType_members (op_type entry),
      col_qty = number_cell (qty entry),
      col_total_qty = number_cell (total_qty entry),
      col_cur_conv_rate = number_cell (cur_conv_rate entry),
      col_cur_conv_type =
        enum_cell ''CurrencyConversionType'' CurrencyConversionType_members (cur_conv_type entry),
      col_avg_price = number_cell (avg_price entry),
      col_price_eur = number_cell (price_eur entry),
      col_price_brl = number_cell (price_brl entry),
      col_net_proceeds = number_cell (net_proceeds entry),
      col_profit = number_cell (profit entry),
      col_tax = number_cell (tax entry),
      col_total_cost_brl = number_cell (total_cost_brl entry)\<rparr>"

definition save_stock_entries_to_excel :: "StockTransactionEntry list \<Rightarrow> sheet_row list" where
  "save_stock_entries_to_excel entries = map save_row entries"

text \<open>
  \<open>parse_enum\<close>. A value that is not a text gives \<open>None\<close>. A text has to match the
  pattern: the class name, a dot, one or more word characters, and then the end of the
  text or a single line feed that ends it. The matched name is looked up among the
  members; a name that is not a member gives \<open>None\<close>. The function never raises.
  Word characters are the letters, the digits and the underscore; the member names have
  no other character, so a text with any other character gives \<open>None\<close> either way.
\<close>

definition is_word_char :: "char \<Rightarrow> bool" where
  "is_word_char c =
     ((CHR ''a'' \<le> c \<and> c \<le> CHR ''z'') \<or> (CHR ''A'' \<le> c \<and> c \<le> CHR ''Z'')
      \<or> (CHR ''0'' \<le> c \<and> c \<le> CHR ''9'') \<or> c = CHR ''_'')"

definition match_enum_pattern :: "string \<Rightarrow> string \<Rightarrow> string option" where
  "match_enum_pattern enum_name v =
     (let prefix = enum_name @ ''.'' in
      if take (length prefix) v = prefix then
        (let rest = drop (length prefix) v;
             member = takeWhile is_word_char rest;
             after = dropWhile is_word_char rest
         in if member \<noteq> [] \<and> (after = [] \<or> after = [CHR 0x0A]) then Some member else None)
      else None)"

definition parse_enum :: "string \<Rightarrow> (string \<times> 'a) list \<Rightarrow> cell \<Rightarrow> 'a option" where
  "parse_enum enum_name members v =
     (case v of
        Text s \<Rightarrow>
          (if s = [] then None
           else (case match_enum_pattern enum_name s of
                   None \<Rightarrow> None
                 | Some member \<Rightarrow> map_of members member))
      | _ \<Rightarrow> None)"

text \<open>
  Reading: an empty cell of a numeric column is not-a-number. Each row gives an object
  built by the constructor from the twelve columns of its parameters; no other column is
  read.
\<close>

fun read_number :: "rat option \<Rightarrow> pyfloat" where
  "read_number None = NaN"
| "read_number (Some x) = Num x"

definition load_row :: "sheet_row \<Rightarrow> StockTransactionEntry" where
  "load_row row =
     \<lparr>date = col_date row,
      op_type = parse_enum ''OpType'' OpType_members (col_op_type row),
      qty = Some (read_number (col_qty row)),
      total_qty = Some (read_number (col_total_qty row)),
      cur_conv_rate = Some (read_number (col_cur_conv_rate row)),
      cur_conv_type =
        parse_enum ''CurrencyConversionType'' CurrencyConversionType_members (col_cur_conv_type row),
      avg_price = Some (read_number (col_avg_price row)),
      price_eur = Some (read_number (col_price_eur row)),
      price_brl = Some (read_number (col_price_brl row)),
      net_proceeds = Some (read_number (col_net_proceeds row)),
      profit = Some (read_number (col_profit row)),
      tax = Some (read_number (col_tax row)),
      total_cost_brl = None\<rparr>"

definition load_stock_entries_from_excel :: "sheet_row list \<Rightarrow> StockTransactionEntry list" where
  "load_stock_entries_from_excel df = map load_row df"

text \<open>
  An ISO date: four digits, a dash, two digits, a dash and two digits.
\<close>

definition iso_date :: "string \<Rightarrow> bool" where
  "iso_date s =
     (length s = 10 \<and> s ! 4 = CHR ''-'' \<and> s ! 7 = CHR ''-''
      \<and> list_all is_digit (take 4 s @ take 2 (drop 5 s) @ drop 8 s))"



text \<open>
  What comes back for a numeric attribute after writing and reading: a number is kept,
  \<open>None\<close> and not-a-number both come back as not-a-number.
\<close>

definition reloaded_number :: "pyfloat option \<Rightarrow> pyfloat option" where
  "reloaded_number v = (case v of Some (Num x) \<Rightarrow> Some (Num x) | _ \<Rightarrow> Some NaN)"

section \<open>Properties of the transaction processor\<close>

text \<open>
  The average price that a pass carries at the end of a list of processed entries: the
  one written on the list's last purchase, or the seed when the list has no purchase.
\<close>

fun carried_average :: "pyfloat option \<Rightarrow> StockTransactionEntry list \<Rightarrow> pyfloat option" where
  "carried_average seed [] = seed"
| "carried_average seed (e # es) =
     carried_average (if op_type e = Some BUY then avg_price e else seed) es"


text \<open>
  What a pass that started with the running quantity \<open>tq\<close> and the average price \<open>avg\<close>
  leaves on the entries: each entry records the quantity and the average after its turn,
  a purchase adds its quantity, a sale takes it away, keeps the average and records the
  tax on its profit.
\<close>

fun filled_from :: "pyfloat \<Rightarrow> pyfloat \<Rightarrow> StockTransactionEntry list \<Rightarrow> bool" where
  "filled_from tq avg [] = True"
| "filled_from tq avg (e # es) =
     (case (qty e, total_qty e, avg_price e) of
        (Some q, Some tq', Some avg') \<Rightarrow>
          ((op_type e = Some BUY \<and> tq' = py_add tq q)
           \<or> (op_type e = Some SELL \<and> tq' = py_sub tq q \<and> avg' = avg
               \<and> (case profit e of None \<Rightarrow> False
                   | Some p \<Rightarrow> tax e = Some (py_mul p TAX_ON_PROFIT_PERCENTAGE))))
          \<and> filled_from tq' avg' es
      | _ \<Rightarrow> False)"

lemma process_buy_Inr:
  assumes "process_buy service st (tq, tc, avg) t = (Inr (tq', tc', avg'), t', st')"
  shows "\<exists>r q pe. price_at_date (get_price_for_buying_eur_at_date service st) st t = (Inr r, st')
            \<and> qty t = Some q \<and> price_eur t = Some pe
            \<and> tq' = py_add tq q \<and> tc' = py_add tc (py_mul (py_mul pe q) r)
            \<and> py_truediv tc' tq' = Inr avg'
            \<and> t' = t\<lparr>cur_conv_rate := Some r, total_qty := Some tq',
                      price_brl := Some (py_mul (py_mul pe q) r),
                      total_cost_brl := Some tc', avg_price := Some avg'\<rparr>"
  using assms unfolding process_buy_def
  by (auto simp: Let_def split: prod.splits sum.splits option.splits)

lemma process_sell_Inr:
  assumes "process_sell service st (tq, tc, avg) t = (Inr (tq', tc', avg'), t', st')"
  shows "\<exists>r q np pe. price_at_date (get_price_for_selling_eur_at_date service st) st t = (Inr r, st')
            \<and> qty t = Some q \<and> net_proceeds t = Some np \<and> price_eur t = Some pe
            \<and> tq' = py_sub tq q \<and> tc' = py_sub tc (py_mul q avg) \<and> avg' = avg
            \<and> t' = t\<lparr>cur_conv_rate := Some r, total_qty := Some tq',
                      profit := Some (py_sub (py_mul r np) (py_mul q avg)),
                      avg_price := Some avg,
                      price_brl := Some (py_mul pe r),
                      tax := Some (py_mul (py_sub (py_mul r np) (py_mul q avg)) TAX_ON_PROFIT_PERCENTAGE)\<rparr>"
  using assms unfolding process_sell_def
  by (auto simp: Let_def split: prod.splits sum.splits option.splits)

lemma process_transaction_Inr:
  assumes "process_transaction service st (tq, tc, avg) t = (Inr (tq', tc', avg'), t', st')"
  shows "op_type t' = op_type t \<and> qty t' = qty t \<and> date t' = date t
         \<and> filled_from tq avg [t'] \<and> total_qty t' = Some tq' \<and> avg_price t' = Some avg'"
proof (cases "op_type t = Some BUY")
  case True
  with assms have "process_buy service st (tq, tc, avg) t = (Inr (tq', tc', avg'), t', st')"
    by (simp add: process_transaction_def)
  from process_buy_Inr [OF this] True show ?thesis by auto
next
  case False
  with assms have s: "op_type t = Some SELL"
    and "process_sell service st (tq, tc, avg) t = (Inr (tq', tc', avg'), t', st')"
    by (auto simp: process_transaction_def split: if_splits)
  from process_sell_Inr [OF this(2)] s show ?thesis by auto
qed

lemma process_loop_None:
  assumes "process_loop service st (tq, tc, avg) ts = (None, out, st')"
  shows "filled_from tq avg out \<and> map op_type out = map op_type ts \<and> map qty out = map qty ts
         \<and> map date out = map date ts"
  using assms
proof (induction ts arbitrary: st tq tc avg out)
  case Nil
  then show ?case by simp
next
  case (Cons t ts)
  from Cons.prems obtain tq' tc' avg' t' st1 rest' where
    step: "process_transaction service st (tq, tc, avg) t = (Inr (tq', tc', avg'), t', st1)"
    and loop: "process_loop service st1 (tq', tc', avg') ts = (None, rest', st')"
    and out: "out = t' # rest'"
    by (auto split: prod.splits sum.splits)
  from process_transaction_Inr [OF step] Cons.IH [OF loop] out show ?case
    by (auto split: option.splits)
qed


lemma filled_from_average:
  assumes "filled_from tq avg out" and "i < length out" and "op_type (out ! i) = Some SELL"
  shows "avg_price (out ! i) = carried_average (Some avg) (take i out)
         \<and> avg_price (out ! i) = (if i = 0 then Some avg else avg_price (out ! (i - 1)))"
  using assms
proof (induction out arbitrary: tq avg i)
  case Nil
  then show ?case by simp
next
  case (Cons e es)
  from Cons.prems(1) obtain q tq' avg' where
    e: "qty e = Some q" "total_qty e = Some tq'" "avg_price e = Some avg'"
    and op: "op_type e = Some BUY \<or> (op_type e = Some SELL \<and> avg' = avg)"
    and rest: "filled_from tq' avg' es"
    by (auto split: option.splits)
  show ?case
  proof (cases i)
    case 0
    with e op Cons.prems(3) show ?thesis by auto
  next
    case (Suc j)
    with Cons.prems have j: "j < length es" "op_type (es ! j) = Some SELL" by simp_all
    from Cons.IH [OF rest j] e op Suc show ?thesis by (cases j) auto
  qed
qed

lemma filled_from_tax:
  assumes "filled_from tq avg out" and "i < length out" and "op_type (out ! i) = Some SELL"
  shows "\<exists>p. profit (out ! i) = Some p \<and> tax (out ! i) = Some (py_mul p TAX_ON_PROFIT_PERCENTAGE)"
  using assms
proof (induction out arbitrary: tq avg i)
  case Nil
  then show ?case by simp
next
  case (Cons e es)
  from Cons.prems(1) obtain q tq' avg' where
    e: "qty e = Some q" "total_qty e = Some tq'" "avg_price e = Some avg'"
    and op: "op_type e = Some BUY \<or> (op_type e = Some SELL
        \<and> (\<exists>p. profit e = Some p \<and> tax e = Some (py_mul p TAX_ON_PROFIT_PERCENTAGE)))"
    and rest: "filled_from tq' avg' es"
    by (auto split: option.splits)
  show ?case
  proof (cases i)
    case 0
    with e op Cons.prems(3) show ?thesis by auto
  next
    case (Suc j)
    with Cons.prems have j: "j < length es" "op_type (es ! j) = Some SELL" by simp_all
    from Cons.IH [OF rest j] Suc show ?thesis by simp
  qed
qed

lemma process_loop_append:
  assumes "process_loop service st agg pre = (None, pre', st1)"
  shows "\<exists>agg1. \<forall>rest. process_loop service st agg (pre @ rest)
           = (case process_loop service st1 agg1 rest of (r, rest', st2) \<Rightarrow> (r, pre' @ rest', st2))"
  using assms
proof (induction pre arbitrary: st agg pre')
  case Nil
  then show ?case by (intro exI [of _ agg]) auto
next
  case (Cons t ts)
  from Cons.prems obtain agg' t' st' ts' where
    step: "process_transaction service st agg t = (Inr agg', t', st')"
    and loop: "process_loop service st' agg' ts = (None, ts', st1)"
    and out: "pre' = t' # ts'"
    by (auto split: prod.splits sum.splits)
  from Cons.IH [OF loop] obtain agg1 where
    "\<forall>rest. process_loop service st' agg' (ts @ rest)
           = (case process_loop service st1 agg1 rest of (r, rest', st2) \<Rightarrow> (r, ts' @ rest', st2))"
    by blast
  with step out show ?case by (intro exI [of _ agg1]) (auto split: prod.splits)
qed

lemma process_transaction_unsupported:
  assumes "op_type t \<noteq> Some BUY" and "op_type t \<noteq> Some SELL"
  shows "process_transaction service st agg t = (Inl ValueError, t, st)"
  using assms by (simp add: process_transaction_def)

lemma process_loop_raises:
  assumes "t \<in> set ts" and "op_type t \<noteq> Some BUY" and "op_type t \<noteq> Some SELL"
  shows "fst (process_loop service st agg ts) \<noteq> None"
  using assms
proof (induction ts arbitrary: st agg)
  case Nil
  then show ?case by simp
next
  case (Cons a ts)
  show ?case
  proof (cases "process_transaction service st agg a")
    case (fields r a' st')
    show ?thesis
    proof (cases r)
      case (Inl e)
      with fields show ?thesis by simp
    next
      case (Inr agg')
      have "a \<noteq> t"
      proof
        assume "a = t"
        with Cons.prems fields Inr show False by (simp add: process_transaction_unsupported)
      qed
      with Cons.prems have "t \<in> set ts" by auto
      from Cons.IH [OF this Cons.prems(2,3), of st' agg'] fields Inr show ?thesis
        by (auto split: prod.splits)
    qed
  qed
qed

section \<open>Properties of persistence\<close>

lemma read_number_cell: "Some (read_number (number_cell v)) = reloaded_number v"
  by (cases v rule: number_cell.cases) (simp_all add: reloaded_number_def)


lemma match_enum_pattern_exact:
  assumes "member \<noteq> []" and "\<forall>c\<in>set member. is_word_char c"
  shows "match_enum_pattern enum_name (enum_name @ ''.'' @ member) = Some member"
  using assms
  by (simp add: match_enum_pattern_def Let_def takeWhile_eq_all_conv [THEN iffD2]
      dropWhile_eq_Nil_conv [THEN iffD2])

lemma is_word_char_simps:
  "is_word_char (CHR ''B'')" "is_word_char (CHR ''U'')" "is_word_char (CHR ''Y'')"
  "is_word_char (CHR ''S'')" "is_word_char (CHR ''E'')" "is_word_char (CHR ''L'')"
  "is_word_char (CHR ''R'')" "is_word_char (CHR ''T'')" "is_word_char (CHR ''O'')"
  "is_word_char (CHR ''_'')" "\<not> is_word_char (CHR 0x0A)"
  by (simp_all add: is_word_char_def less_eq_char_def)

lemma parse_enum_OpType_texts:
  "parse_enum ''OpType'' OpType_members (Text ''OpType.BUY'') = Some BUY"
  "parse_enum ''OpType'' OpType_members (Text (''OpType.BUY'' @ [CHR 0x0A])) = Some BUY"
  "parse_enum ''OpType'' OpType_members (Text ''OpType.SELL'') = Some SELL"
  "parse_enum ''OpType'' OpType_members (Text (''OpType.SELL'' @ [CHR 0x0A])) = Some SELL"
  by (simp_all add: parse_enum_def match_enum_pattern_def OpType_members_def is_word_char_simps)

lemma parse_enum_CurrencyConversionType_texts:
  "parse_enum ''CurrencyConversionType'' CurrencyConversionType_members
     (Text ''CurrencyConversionType.EUR_TO_BRL'') = Some EUR_TO_BRL"
  "parse_enum ''CurrencyConversionType'' CurrencyConversionType_members
     (Text (''CurrencyConversionType.EUR_TO_BRL'' @ [CHR 0x0A])) = Some EUR_TO_BRL"
  "parse_enum ''CurrencyConversionType'' CurrencyConversionType_members
     (Text ''CurrencyConversionType.BRL_TO_EUR'') = Some BRL_TO_EUR"
  "parse_enum ''CurrencyConversionType'' CurrencyConversionType_members
     (Text (''CurrencyConversionType.BRL_TO_EUR'' @ [CHR 0x0A])) = Some BRL_TO_EUR"
  by (simp_all add: parse_enum_def match_enum_pattern_def CurrencyConversionType_members_def
      is_word_char_simps)



lemma parse_enum_cell_OpType:
  "parse_enum ''OpType'' OpType_members (enum_cell ''OpType'' OpType_members v) = v"
proof (cases v)
  case None
  then show ?thesis by (simp add: enum_cell_def parse_enum_def)
next
  case (Some m)
  then show ?thesis using parse_enum_OpType_texts(1,3)
    by (cases m) (simp_all add: enum_cell_def OpType_members_def)
qed

lemma parse_enum_cell_CurrencyConversionType:
  "parse_enum ''CurrencyConversionType'' CurrencyConversionType_members
     (enum_cell ''CurrencyConversionType'' CurrencyConversionType_members v) = v"
proof (cases v)
  case None
  then show ?thesis by (simp add: enum_cell_def parse_enum_def)
next
  case (Some m)
  then show ?thesis using parse_enum_CurrencyConversionType_texts(1,3)
    by (cases m) (simp_all add: enum_cell_def CurrencyConversionType_members_def)
qed

lemma load_save_row:
  "load_row (save_row e) =
     e\<lparr>qty := reloaded_number (qty e), total_qty := reloaded_number (total_qty e),
       cur_conv_rate := reloaded_number (cur_conv_rate e),
       avg_price := reloaded_number (avg_price e), price_eur := reloaded_number (price_eur e),
       price_brl := reloaded_number (price_brl e),
       net_proceeds := reloaded_number (net_proceeds e), profit := reloaded_number (profit e),
       tax := reloaded_number (tax e), total_cost_brl := None\<rparr>"
  by (simp add: load_row_def save_row_def read_number_cell parse_enum_cell_OpType
      parse_enum_cell_CurrencyConversionType)

section \<open>Properties of the assembler\<close>














section \<open>An example ledger\<close>

text \<open>
  A service that has published rates for 2023-01-10 and 2023-03-17 only, a purchase on the
  first of these days and a sale on 2023-03-19, with the state the resolver and the
  entries are in after a pass.
\<close>

definition example_service :: bcb_service where
  "example_service d =
     (if d = ''01-10-2023'' then [\<lparr>cotacaoCompra = 5.00, cotacaoVenda = 5.10\<rparr>]
      else if d = ''03-17-2023'' then [\<lparr>cotacaoCompra = 5.10, cotacaoVenda = 5.20\<rparr>]
      else [])"

definition empty_resolver :: resolver where
  "empty_resolver = \<lparr>BCB_CACHE_FOR_EUR_REQUESTS = [], requests_sent = []\<rparr>"

definition example_purchase :: StockTransactionEntry where
  "example_purchase = buy_entry (''2023-01-10'', Some (Num 20.00), Some (Num 10))"

definition example_sale :: StockTransactionEntry where
  "example_sale = sell_entry (''2023-03-19'', Some (Num 19), Some (Num 4), Some (Num 76))"

definition example_processed :: "StockTransactionEntry list" where
  "example_processed =
     [example_purchase\<lparr>cur_conv_rate := Some (Num 5), total_qty := Some (Num 10),
        price_brl := Some (Num 1000), total_cost_brl := Some (Num 1000),
        avg_price := Some (Num 100)\<rparr>,
      example_sale\<lparr>cur_conv_rate := Some (Num 5.2), total_qty := Some (Num 6),
        profit := Some (Num (- 4.8)), avg_price := Some (Num 100),
        price_brl := Some (Num 98.8), tax := Some (Num (- 0.72))\<rparr>]"

definition example_resolver_after :: resolver where
  "example_resolver_after =
     \<lparr>BCB_CACHE_FOR_EUR_REQUESTS =
        [(''01-10-2023'', [\<lparr>cotacaoCompra = 5.00, cotacaoVenda = 5.10\<rparr>]),
         (''03-18-2023'', []),
         (''03-17-2023'', [\<lparr>cotacaoCompra = 5.10, cotacaoVenda = 5.20\<rparr>])],
      requests_sent = [''01-10-2023'', ''03-19-2023'', ''03-18-2023'', ''03-17-2023'']\<rparr>"

definition example_resolver_between :: resolver where
  "example_resolver_between =
     \<lparr>BCB_CACHE_FOR_EUR_REQUESTS =
        [(''01-10-2023'', [\<lparr>cotacaoCompra = 5.00, cotacaoVenda = 5.10\<rparr>])],
      requests_sent = [''01-10-2023'']\<rparr>"

text \<open>
  The resolver after a first resolution of Sunday 2023-03-19, started with an empty cache.
\<close>

definition weekend_resolver :: resolver where
  "weekend_resolver =
     \<lparr>BCB_CACHE_FOR_EUR_REQUESTS =
        [(''03-18-2023'', []),
         (''03-17-2023'', [\<lparr>cotacaoCompra = 5.10, cotacaoVenda = 5.20\<rparr>])],
      requests_sent = [''03-19-2023'', ''03-18-2023'', ''03-17-2023'']\<rparr>"

text \<open>
  An entry whose operation is \<open>None\<close>, as the reader builds it from a row with an
  operation tag that does not parse.
\<close>

definition unsupported_entry :: StockTransactionEntry where
  "unsupported_entry = (sell_entry (''2023-03-19'', Some (Num 19), Some (Num 4), Some (Num 76)))\<lparr>op_type := None\<rparr>"




lemma example_pass:
  "process_transactions example_service empty_resolver [example_purchase, example_sale]
   = (None, example_processed, example_resolver_after)"
  by code_simp


lemma weekend_resolution:
  "get_eur_quotation_data_for_date example_service empty_resolver ''2023'' ''03'' ''19''
   = (Inr [\<lparr>cotacaoCompra = 5.10, cotacaoVenda = 5.20\<rparr>], weekend_resolver)"
  by code_simp

lemma purchase_pass:
  "process_transactions example_service empty_resolver [example_purchase]
   = (None, [example_purchase\<lparr>cur_conv_rate := Some (Num 5), total_qty := Some (Num 10),
        price_brl := Some (Num 1000), total_cost_brl := Some (Num 1000),
        avg_price := Some (Num 100)\<rparr>], example_resolver_between)"
  by code_simp



section \<open>The claims about the transaction processor\<close>




text \<open>
  Claim C4. In a pass that ends without an exception, the average price written on a sale
  is the one the pass carried before that sale: the average written on the last purchase
  before it, or the seed 0 when no purchase comes before it. It is also the average
  written on the entry just before the sale, so it does not change along a run of sales.
\<close>

theorem average_price_carried_on_sale:
  assumes "process_transactions service st ts = (None, out, st')"
    and "i < length out" and "op_type (ts ! i) = Some SELL"
  shows "avg_price (out ! i) = carried_average (Some (Num 0)) (take i out)
         \<and> (0 < i \<longrightarrow> avg_price (out ! i) = avg_price (out ! (i - 1)))"
proof -
  from assms(1) have loop: "process_loop service st (Num 0, Num 0, Num 0) ts = (None, out, st')"
    by (simp add: process_transactions_def)
  note facts = process_loop_None [OF loop]
  from facts have "length (map op_type out) = length (map op_type ts)" by simp
  then have len: "length out = length ts" by simp
  from facts assms(2) len have "op_type (out ! i) = op_type (ts ! i)" by (metis nth_map)
  with assms(3) have sell: "op_type (out ! i) = Some SELL" by simp
  from facts have "filled_from (Num 0) (Num 0) out" by simp
  from filled_from_average [OF this assms(2) sell] show ?thesis by auto
qed

text \<open>
  The sale of the example ledger carries the average 100 that its purchase wrote.
\<close>

theorem average_price_carried_on_sale_witness:
  "process_transactions example_service empty_resolver [example_purchase, example_sale]
     = (None, example_processed, example_resolver_after)
   \<and> (1::nat) < length example_processed \<and> op_type ([example_purchase, example_sale] ! 1) = Some SELL
   \<and> avg_price (example_processed ! 1) = Some (Num 100)
   \<and> carried_average (Some (Num 0)) (take 1 example_processed) = Some (Num 100)
   \<and> avg_price (example_processed ! 0) = Some (Num 100)"
  using average_price_carried_on_sale [OF example_pass, of 1] example_pass
  by (simp add: example_processed_def example_sale_def example_purchase_def sell_entry_def
      buy_entry_def)

text \<open>
  Claim C9. In a pass that ends without an exception, every sale has a profit written on
  it, and its tax is that profit times \<open>TAX_ON_PROFIT_PERCENTAGE\<close>: for a profit that is
  a number \<open>x\<close>, of either sign, the tax is \<open>x * 15 / 100\<close>. There is no floor at zero.
\<close>

theorem tax_is_fixed_share_of_profit:
  assumes "process_transactions service st ts = (None, out, st')"
    and "i < length out" and "op_type (ts ! i) = Some SELL"
  shows "\<exists>p. profit (out ! i) = Some p
           \<and> tax (out ! i) = Some (py_mul p TAX_ON_PROFIT_PERCENTAGE)
           \<and> (\<forall>x. p = Num x \<longrightarrow> tax (out ! i) = Some (Num (x * 15 / 100)))"
proof -
  from assms(1) have loop: "process_loop service st (Num 0, Num 0, Num 0) ts = (None, out, st')"
    by (simp add: process_transactions_def)
  note facts = process_loop_None [OF loop]
  from facts have "length (map op_type out) = length (map op_type ts)" by simp
  then have len: "length out = length ts" by simp
  from facts assms(2) len have "op_type (out ! i) = op_type (ts ! i)" by (metis nth_map)
  with assms(3) have sell: "op_type (out ! i) = Some SELL" by simp
  from facts have "filled_from (Num 0) (Num 0) out" by simp
  from filled_from_tax [OF this assms(2) sell] show ?thesis
    by (auto simp: TAX_ON_PROFIT_PERCENTAGE_def)
qed

text \<open>
  The sale of the example ledger has the negative profit \<open>-4.8\<close> and the negative tax
  \<open>-4.8 * 15 / 100\<close>.
\<close>

theorem tax_is_fixed_share_of_profit_witness:
  "process_transactions example_service empty_resolver [example_purchase, example_sale]
     = (None, example_processed, example_resolver_after)
   \<and> (1::nat) < length example_processed \<and> op_type ([example_purchase, example_sale] ! 1) = Some SELL
   \<and> profit (example_processed ! 1) = Some (Num (- 4.8))
   \<and> tax (example_processed ! 1) = Some (Num (- 4.8 * 15 / 100))"
  using tax_is_fixed_share_of_profit [OF example_pass, of 1] example_pass
  by (simp add: example_processed_def example_sale_def example_purchase_def sell_entry_def
      buy_entry_def)



text \<open>
  Claim C7, as the code has it. A pass over a ledger that has an entry whose operation is
  neither a purchase nor a sale always ends with an exception. When the turns of the
  entries before the first such entry raise nothing, the exception is \<open>ValueError\<close>,
  raised at that entry with no retry: that entry and the entries after it are untouched,
  and the entries before it keep what the pass wrote on them, since the pass changes the
  objects in place and undoes nothing.
\<close>

theorem unsupported_operation_aborts_pass:
  assumes "op_type t \<noteq> Some BUY" and "op_type t \<noteq> Some SELL"
  shows "fst (process_transactions service st (pre @ t # post)) \<noteq> None
         \<and> (process_transactions service st pre = (None, pre', st1) \<longrightarrow>
              process_transactions service st (pre @ t # post)
              = (Some ValueError, pre' @ t # post, st1))"
proof (intro conjI impI)
  have "t \<in> set (pre @ t # post)" by simp
  from process_loop_raises [OF this assms]
  show "fst (process_transactions service st (pre @ t # post)) \<noteq> None"
    by (simp add: process_transactions_def)
next
  assume "process_transactions service st pre = (None, pre', st1)"
  then have "process_loop service st (Num 0, Num 0, Num 0) pre = (None, pre', st1)"
    by (simp add: process_transactions_def)
  from process_loop_append [OF this] obtain agg1 where
    "process_loop service st (Num 0, Num 0, Num 0) (pre @ t # post)
     = (case process_loop service st1 agg1 (t # post) of (r, rest', st2) \<Rightarrow> (r, pre' @ rest', st2))"
    by blast
  then show "process_transactions service st (pre @ t # post)
             = (Some ValueError, pre' @ t # post, st1)"
    by (simp add: process_transactions_def process_transaction_unsupported [OF assms])
qed

text \<open>
  A purchase, an entry without an operation and a sale: the purchase is processed, the
  other two are left as they were.
\<close>

theorem unsupported_operation_aborts_pass_witness:
  "op_type unsupported_entry \<noteq> Some BUY \<and> op_type unsupported_entry \<noteq> Some SELL
   \<and> process_transactions example_service empty_resolver [example_purchase]
       = (None, [example_purchase\<lparr>cur_conv_rate := Some (Num 5), total_qty := Some (Num 10),
            price_brl := Some (Num 1000), total_cost_brl := Some (Num 1000),
            avg_price := Some (Num 100)\<rparr>], example_resolver_between)
   \<and> process_transactions example_service empty_resolver
         [example_purchase, unsupported_entry, example_sale]
       = (Some ValueError,
          [example_purchase\<lparr>cur_conv_rate := Some (Num 5), total_qty := Some (Num 10),
            price_brl := Some (Num 1000), total_cost_brl := Some (Num 1000),
            avg_price := Some (Num 100)\<rparr>, unsupported_entry, example_sale],
          example_resolver_between)"
proof -
  have op: "op_type unsupported_entry \<noteq> Some BUY" "op_type unsupported_entry \<noteq> Some SELL"
    by (simp_all add: unsupported_entry_def)
  from unsupported_operation_aborts_pass [OF op, of example_service empty_resolver
      "[example_purchase]" "[example_sale]"] purchase_pass op
  show ?thesis by simp
qed

text \<open>
  Claim C7 as stated fails: after the aborted pass over the example purchase followed by
  the entry without an operation, the purchase has its running quantity and its average
  price filled, which it did not have before.
\<close>

theorem aborted_pass_leaves_filled_fields:
  "op_type unsupported_entry = None
   \<and> total_qty example_purchase = None \<and> avg_price example_purchase = None
   \<and> (\<exists>out st'. process_transactions example_service empty_resolver
                    [example_purchase, unsupported_entry] = (Some ValueError, out, st')
         \<and> total_qty (out ! 0) = Some (Num 10) \<and> avg_price (out ! 0) = Some (Num 100))"
proof -
  have "process_transactions example_service empty_resolver [example_purchase, unsupported_entry]
        = (Some ValueError,
           [example_purchase\<lparr>cur_conv_rate := Some (Num 5), total_qty := Some (Num 10),
              price_brl := Some (Num 1000), total_cost_brl := Some (Num 1000),
              avg_price := Some (Num 100)\<rparr>, unsupported_entry],
           example_resolver_between)"
    by code_simp
  then show ?thesis
    by (simp add: unsupported_entry_def example_purchase_def buy_entry_def)
qed

section \<open>The claims about the resolver\<close>

text \<open>
  Claim C10. There is a sequence of calls after which a cache lookup gives an empty answer:
  the service has nothing for 2023-03-19 and 2023-03-18 and a rate for 2023-03-17. The
  resolution of 2023-03-19 walks back two days and, on its way, stores the empty answer
  of its first request under the key of 2023-03-18. A later resolution of 2023-03-18
  finds that entry, sends no request and returns the empty answer, and both accessors
  raise \<open>IndexError\<close> on its first quotation.
\<close>

theorem empty_answer_served_from_cache:
  "example_service ''03-19-2023'' = [] \<and> example_service ''03-18-2023'' = []
   \<and> example_service ''03-17-2023'' = [\<lparr>cotacaoCompra = 5.10, cotacaoVenda = 5.20\<rparr>]
   \<and> get_eur_quotation_data_for_date example_service empty_resolver ''2023'' ''03'' ''19''
       = (Inr [\<lparr>cotacaoCompra = 5.10, cotacaoVenda = 5.20\<rparr>], weekend_resolver)
   \<and> map_of (BCB_CACHE_FOR_EUR_REQUESTS weekend_resolver) ''03-18-2023'' = Some []
   \<and> get_eur_quotation_data_for_date example_service weekend_resolver ''2023'' ''03'' ''18''
       = (Inr [], weekend_resolver)
   \<and> get_price_for_buying_eur_at_date example_service weekend_resolver ''2023'' ''03'' ''18''
       = (Inl IndexError, weekend_resolver)
   \<and> get_price_for_selling_eur_at_date example_service weekend_resolver ''2023'' ''03'' ''18''
       = (Inl IndexError, weekend_resolver)"
proof -
  have cached: "map_of (BCB_CACHE_FOR_EUR_REQUESTS weekend_resolver) ''03-18-2023'' = Some []"
    by (simp add: weekend_resolver_def)
  have again: "get_eur_quotation_data_for_date example_service weekend_resolver ''2023'' ''03'' ''18''
               = (Inr [], weekend_resolver)"
    using cached by (simp add: get_eur_quotation_data_for_date_def date_key_def)
  show ?thesis
    using weekend_resolution cached again
    by (simp add: get_price_for_buying_eur_at_date_def get_price_for_selling_eur_at_date_def
        example_service_def)
qed

text \<open>
  Claim C2, at the same service. The first resolution of 2023-03-19 sends three requests
  and returns the rate of 2023-03-17; it stores nothing under the key of 2023-03-19. The
  second resolution of 2023-03-19 misses the cache, sends the same three requests again
  and returns the same rate. Only a resolution of the resolved date, 2023-03-17, is served
  from the cache.
\<close>

theorem second_resolution_asks_again:
  "get_eur_quotation_data_for_date example_service empty_resolver ''2023'' ''03'' ''19''
     = (Inr [\<lparr>cotacaoCompra = 5.10, cotacaoVenda = 5.20\<rparr>], weekend_resolver)
   \<and> map_of (BCB_CACHE_FOR_EUR_REQUESTS weekend_resolver) ''03-19-2023'' = None
   \<and> get_eur_quotation_data_for_date example_service weekend_resolver ''2023'' ''03'' ''19''
     = (Inr [\<lparr>cotacaoCompra = 5.10, cotacaoVenda = 5.20\<rparr>],
        weekend_resolver\<lparr>requests_sent :=
          [''03-19-2023'', ''03-18-2023'', ''03-17-2023'',
           ''03-19-2023'', ''03-18-2023'', ''03-17-2023'']\<rparr>)
   \<and> get_eur_quotation_data_for_date example_service weekend_resolver ''2023'' ''03'' ''17''
     = (Inr [\<lparr>cotacaoCompra = 5.10, cotacaoVenda = 5.20\<rparr>], weekend_resolver)"
proof -
  have second: "get_eur_quotation_data_for_date example_service weekend_resolver ''2023'' ''03'' ''19''
     = (Inr [\<lparr>cotacaoCompra = 5.10, cotacaoVenda = 5.20\<rparr>],
        weekend_resolver\<lparr>requests_sent :=
          [''03-19-2023'', ''03-18-2023'', ''03-17-2023'',
           ''03-19-2023'', ''03-18-2023'', ''03-17-2023'']\<rparr>)"
    by code_simp
  have resolved: "get_eur_quotation_data_for_date example_service weekend_resolver ''2023'' ''03'' ''17''
     = (Inr [\<lparr>cotacaoCompra = 5.10, cotacaoVenda = 5.20\<rparr>], weekend_resolver)"
    by (simp add: get_eur_quotation_data_for_date_def date_key_def weekend_resolver_def Let_def)
  show ?thesis using weekend_resolution second resolved by (simp add: weekend_resolver_def)
qed

section \<open>The claims about the assembler\<close>



section \<open>The claims about persistence\<close>

text \<open>
  Claim C3, as the code has it. Writing a list of entries with ISO dates and reading it
  back gives, entry by entry, the same date, the same operation and conversion direction
  as enum members, and the same number in every numeric attribute that held a number. An
  attribute that held \<open>None\<close> comes back as not-a-number, and \<open>total_cost_brl\<close>, the
  attribute that the processor adds to purchases, is written but not read back.
\<close>

theorem reload_of_saved_entries:
  assumes "\<forall>e\<in>set entries. iso_date (date e)"
  shows "load_stock_entries_from_excel (save_stock_entries_to_excel entries) =
     map (\<lambda>e. e\<lparr>qty := reloaded_number (qty e), total_qty := reloaded_number (total_qty e),
                 cur_conv_rate := reloaded_number (cur_conv_rate e),
                 avg_price := reloaded_number (avg_price e),
                 price_eur := reloaded_number (price_eur e),
                 price_brl := reloaded_number (price_brl e),
                 net_proceeds := reloaded_number (net_proceeds e),
                 profit := reloaded_number (profit e),
                 tax := reloaded_number (tax e), total_cost_brl := None\<rparr>) entries"
  by (simp add: load_stock_entries_from_excel_def save_stock_entries_to_excel_def load_save_row)

text \<open>
  The processed example ledger, written and read back.
\<close>

theorem reload_of_saved_entries_witness:
  "iso_date ''2023-01-10'' \<and> iso_date ''2023-03-19''
   \<and> load_stock_entries_from_excel (save_stock_entries_to_excel example_processed) =
     [example_purchase\<lparr>cur_conv_rate := Some (Num 5), total_qty := Some (Num 10),
        price_brl := Some (Num 1000), avg_price := Some (Num 100),
        net_proceeds := Some NaN, profit := Some NaN, tax := Some NaN\<rparr>,
      example_sale\<lparr>cur_conv_rate := Some (Num 5.2), total_qty := Some (Num 6),
        profit := Some (Num (- 4.8)), avg_price := Some (Num 100),
        price_brl := Some (Num 98.8), tax := Some (Num (- 0.72))\<rparr>]"
proof -
  have iso: "iso_date ''2023-01-10''" "iso_date ''2023-03-19''"
    by (simp_all add: iso_date_def is_digit_def less_eq_char_def)
  then have "\<forall>e\<in>set example_processed. iso_date (date e)"
    by (simp add: example_processed_def example_purchase_def example_sale_def buy_entry_def
        sell_entry_def)
  from reload_of_saved_entries [OF this] iso show ?thesis
    by (simp add: example_processed_def example_purchase_def example_sale_def buy_entry_def
        sell_entry_def reloaded_number_def)
qed

text \<open>
  Claim C3 as stated fails on the processed example ledger: the purchase has a total cost,
  which is written to the table and is gone after reading, and its net proceeds, absent
  before, are not-a-number after; so the list read back is not the list written.
\<close>

theorem reload_loses_added_field:
  "total_cost_brl (example_processed ! 0) = Some (Num 1000)
   \<and> col_total_cost_brl (save_stock_entries_to_excel example_processed ! 0) = Some 1000
   \<and> total_cost_brl (load_stock_entries_from_excel
        (save_stock_entries_to_excel example_processed) ! 0) = None
   \<and> net_proceeds (example_processed ! 0) = None
   \<and> net_proceeds (load_stock_entries_from_excel
        (save_stock_entries_to_excel example_processed) ! 0) = Some NaN
   \<and> load_stock_entries_from_excel (save_stock_entries_to_excel example_processed)
       \<noteq> example_processed"
proof -
  have a: "total_cost_brl (example_processed ! 0) = Some (Num 1000)"
    and b: "net_proceeds (example_processed ! 0) = None"
    by (simp_all add: example_processed_def example_purchase_def buy_entry_def)
  have c: "col_total_cost_brl (save_stock_entries_to_excel example_processed ! 0) = Some 1000"
    by (simp add: save_stock_entries_to_excel_def save_row_def example_processed_def)
  have d: "total_cost_brl (load_stock_entries_from_excel
        (save_stock_entries_to_excel example_processed) ! 0) = None"
    and e: "net_proceeds (load_stock_entries_from_excel
        (save_stock_entries_to_excel example_processed) ! 0) = Some NaN"
    by (simp_all add: load_stock_entries_from_excel_def save_stock_entries_to_excel_def
        load_save_row example_processed_def example_purchase_def buy_entry_def
        reloaded_number_def)
  from a d have "load_stock_entries_from_excel (save_stock_entries_to_excel example_processed)
       \<noteq> example_processed" by auto
  with a b c d e show ?thesis by simp
qed




end
